theory Spec2Isabelle
  imports Main "HOL-Library.Word" "HOL-Library.AList"
begin

section \<open>Python values used by the EtherNet/IP client\<close>

text \<open>
  A Python \<open>bytes\<close> object is a list of 8-bit words. A Python \<open>str\<close> is a list of
  Unicode code points (\<open>len\<close> counts code points, \<open>encode('utf-8')\<close> produces one to
  four bytes for each of them). Python integers are unbounded; every integer of the
  modelled code is a length, an offset or the value of an unsigned field, so \<open>nat\<close>.
\<close>

type_synonym byte = "8 word"
type_synonym bytes = "byte list"
type_synonym py_str = "nat list"

text \<open>The exceptions the modelled code can raise.\<close>

datatype py_error =
    OverflowError
  | UnicodeEncodeError
  | IndexError
  | AttributeError
  | StructError
  | UnboundLocalError

text \<open>\<open>xs[a:b]\<close> with non-negative bounds: never raises, clips at the end of \<open>xs\<close>.\<close>

definition slice :: "nat \<Rightarrow> nat \<Rightarrow> 'a list \<Rightarrow> 'a list" where
  "slice a b xs = drop a (take b xs)"

text \<open>\<open>int.from_bytes(bs, 'little')\<close>; the empty byte string gives 0.\<close>

fun int_from_bytes :: "bytes \<Rightarrow> nat" where
  "int_from_bytes [] = 0"
| "int_from_bytes (b # bs) = unat b + 256 * int_from_bytes bs"

fun le_bytes :: "nat \<Rightarrow> nat \<Rightarrow> bytes" where
  "le_bytes 0 v = []"
| "le_bytes (Suc n) v = of_nat (v mod 256) # le_bytes n (v div 256)"

text \<open>\<open>v.to_bytes(n, 'little')\<close> raises OverflowError when \<open>v\<close> does not fit \<open>n\<close> bytes.\<close>

definition to_bytes :: "nat \<Rightarrow> nat \<Rightarrow> py_error + bytes" where
  "to_bytes v n = (if v < 256 ^ n then Inr (le_bytes n v) else Inl OverflowError)"

text \<open>
  \<open>str.encode('utf-8')\<close>: one code point at a time; a surrogate code point raises
  UnicodeEncodeError.
\<close>

definition utf8_char :: "nat \<Rightarrow> py_error + bytes" where
  "utf8_char c =
     (if c < 0x80 then Inr [of_nat c]
      else if c < 0x800 then Inr [of_nat (0xC0 + c div 64), of_nat (0x80 + c mod 64)]
      else if 0xD800 \<le> c \<and> c < 0xE000 then Inl UnicodeEncodeError
      else if c < 0x10000 then
        Inr [of_nat (0xE0 + c div 4096), of_nat (0x80 + (c div 64) mod 64),
             of_nat (0x80 + c mod 64)]
      else
        Inr [of_nat (0xF0 + c div 262144), of_nat (0x80 + (c div 4096) mod 64),
             of_nat (0x80 + (c div 64) mod 64), of_nat (0x80 + c mod 64)])"

fun encode_utf8 :: "py_str \<Rightarrow> py_error + bytes" where
  "encode_utf8 [] = Inr []"
| "encode_utf8 (c # cs) =
     (case utf8_char c of
        Inl e \<Rightarrow> Inl e
      | Inr bs \<Rightarrow> (case encode_utf8 cs of Inl e \<Rightarrow> Inl e | Inr rest \<Rightarrow> Inr (bs @ rest)))"

section \<open>eip.py: CIP request path\<close>

text \<open>
  \<open>CIPRequest.tag_request_path\<close>: marker 0x91, \<open>len(tag_name)\<close> as one byte, the
  UTF-8 bytes of the name, and a zero byte when the length of all that is odd.
\<close>

definition tag_request_path :: "py_str \<Rightarrow> py_error + bytes" where
  "tag_request_path tag_name =
     (case to_bytes (length tag_name) 1 of
        Inl e \<Rightarrow> Inl e
      | Inr len_byte \<Rightarrow>
         (case encode_utf8 tag_name of
            Inl e \<Rightarrow> Inl e
          | Inr name_bytes \<Rightarrow>
              (let request_path_bytes = [0x91] @ len_byte @ name_bytes
               in if length request_path_bytes mod 2 \<noteq> 0
                  then Inr (request_path_bytes @ [0x00])
                  else Inr request_path_bytes)))"

section \<open>eip.py: CIP reply\<close>

record cip_reply =
  reply_service :: bytes
  reserved :: bytes
  general_status :: bytes
  extended_status_size :: bytes
  extended_status :: bytes
  reply_data :: bytes

text \<open>
  \<open>CIPReply.__init__\<close>. Every statement is a slice or \<open>int.from_bytes\<close>, none of which
  raises, so the constructor returns a reply for every buffer.
\<close>

definition CIPReply :: "bytes \<Rightarrow> py_error + cip_reply" where
  "CIPReply reply_bytes =
     (let ess = slice 3 4 reply_bytes;
          extended_status_byte_offset = int_from_bytes ess * 2
      in Inr \<lparr> reply_service = slice 0 1 reply_bytes,
               reserved = slice 1 2 reply_bytes,
               general_status = slice 2 3 reply_bytes,
               extended_status_size = ess,
               extended_status = slice 4 extended_status_byte_offset reply_bytes,
               reply_data = drop (4 + extended_status_byte_offset) reply_bytes \<rparr>)"

section \<open>eip.py: encapsulation message\<close>

record eip_message =
  msg_command :: bytes
  msg_length :: bytes
  msg_session_handle_id :: bytes
  msg_status :: bytes
  msg_sender_context_data :: bytes
  msg_command_options :: bytes
  msg_command_data :: bytes

text \<open>
  \<open>EIPMessage.__init__\<close> with its six parameters; \<open>len(command_data).to_bytes(2, 'little')\<close>
  raises OverflowError for a payload of more than 65535 bytes.
\<close>

definition EIPMessage ::
  "bytes \<Rightarrow> bytes \<Rightarrow> bytes \<Rightarrow> bytes \<Rightarrow> bytes \<Rightarrow> bytes \<Rightarrow> py_error + eip_message" where
  "EIPMessage command command_data session_handle_id status sender_context_data command_options =
     (case to_bytes (length command_data) 2 of
        Inl e \<Rightarrow> Inl e
      | Inr l \<Rightarrow>
          Inr \<lparr> msg_command = command, msg_length = l,
                msg_session_handle_id = session_handle_id, msg_status = status,
                msg_sender_context_data = sender_context_data,
                msg_command_options = command_options,
                msg_command_data = command_data \<rparr>)"

text \<open>The default arguments of \<open>EIPMessage.__init__\<close>.\<close>

definition default_command :: bytes where "default_command = [0, 0]"
definition default_session_handle_id :: bytes where "default_session_handle_id = [0, 0, 0, 0]"
definition default_status :: bytes where "default_status = [0, 0, 0, 0]"
definition default_sender_context_data :: bytes where
  "default_sender_context_data = [0, 0, 0, 0, 0, 0, 0, 0]"
definition default_command_options :: bytes where "default_command_options = [0, 0, 0, 0]"

definition EIPMessage_bytes :: "eip_message \<Rightarrow> bytes" where
  "EIPMessage_bytes m =
     msg_command m @ msg_length m @ msg_session_handle_id m @ msg_status m @
     msg_sender_context_data m @ msg_command_options m @ msg_command_data m"

text \<open>
  \<open>EIPMessage.from_bytes\<close> overwrites the seven fields of \<open>self\<close> with slices of the
  buffer. No statement of it raises.
\<close>

definition EIPMessage_from_bytes :: "eip_message \<Rightarrow> bytes \<Rightarrow> py_error + eip_message" where
  "EIPMessage_from_bytes self eip_message_bytes =
     Inr (self \<lparr> msg_command := slice 0 2 eip_message_bytes,
                 msg_length := slice 2 4 eip_message_bytes,
                 msg_session_handle_id := slice 4 8 eip_message_bytes,
                 msg_status := slice 8 12 eip_message_bytes,
                 msg_sender_context_data := slice 12 20 eip_message_bytes,
                 msg_command_options := slice 20 24 eip_message_bytes,
                 msg_command_data := drop 24 eip_message_bytes \<rparr>)"

section \<open>eip.py: the EIP session object\<close>

text \<open>
  The fields of \<open>EIP\<close> that the message codec reads; the socket is outside the model.
\<close>

record eip =
  session_handle_id :: bytes
  is_connected_explicit :: bool
  has_session_handle :: bool
  BUFFER_SIZE :: nat

definition EIP_init :: eip where
  "EIP_init = \<lparr> session_handle_id = [0, 0, 0, 0, 0, 0, 0, 0],
                is_connected_explicit = False,
                has_session_handle = False,
                BUFFER_SIZE = 4096 \<rparr>"

text \<open>
  The message \<open>send_rr_data\<close> builds and hands to \<open>send_command\<close>:
  \<open>EIPMessage(b'\x6f\x00', command_specific_data, self.session_handle_id)\<close>.
\<close>

definition send_rr_data_message :: "eip \<Rightarrow> bytes \<Rightarrow> py_error + eip_message" where
  "send_rr_data_message self command_specific_data =
     EIPMessage [0x6f, 0x00] command_specific_data (session_handle_id self)
       default_status default_sender_context_data default_command_options"

text \<open>
  \<open>register_session\<close> stores the session handle of the reply it received; the reply is
  a parameter here.
\<close>

definition register_session_store :: "eip \<Rightarrow> eip_message \<Rightarrow> eip" where
  "register_session_store self response =
     self \<lparr> has_session_handle := True,
            session_handle_id := msg_session_handle_id response \<rparr>"

text \<open>\<open>EIPMessage()\<close> with every default argument, as the decoders build it.\<close>

definition EIPMessage_default :: "py_error + eip_message" where
  "EIPMessage_default =
     EIPMessage default_command [] default_session_handle_id default_status
       default_sender_context_data default_command_options"

section \<open>eip.py: Common Packet Format\<close>

record data_and_address_item =
  item_type_id :: bytes
  item_length :: bytes
  item_data :: bytes

definition NULL_ADDRESS_ITEM :: bytes where "NULL_ADDRESS_ITEM = [0x00, 0x00]"
definition UNCONNECTED_MESSAGE :: bytes where "UNCONNECTED_MESSAGE = [0xb2, 0x00]"

text \<open>
  \<open>DataAndAddressItem.__init__\<close>: the length field is computed from the data;
  \<open>to_bytes(2, 'little')\<close> raises OverflowError for more than 65535 bytes.
\<close>

definition DataAndAddressItem :: "bytes \<Rightarrow> bytes \<Rightarrow> py_error + data_and_address_item" where
  "DataAndAddressItem type_id data =
     (case to_bytes (length data) 2 of
        Inl e \<Rightarrow> Inl e
      | Inr l \<Rightarrow> Inr \<lparr> item_type_id = type_id, item_length = l, item_data = data \<rparr>)"

definition DataAndAddressItem_bytes :: "data_and_address_item \<Rightarrow> bytes" where
  "DataAndAddressItem_bytes i = item_type_id i @ item_length i @ item_data i"

record common_packet_format =
  cpf_packets :: "data_and_address_item list"
  cpf_item_count :: nat
  cpf_packet_bytes :: bytes

text \<open>
  \<open>CommonPacketFormat.__init__\<close>: two null address items; one given item replaces the
  second of them, two or more given items replace the list.
\<close>

definition CommonPacketFormat ::
  "data_and_address_item list \<Rightarrow> py_error + common_packet_format" where
  "CommonPacketFormat packets =
     (case DataAndAddressItem NULL_ADDRESS_ITEM [] of
        Inl e \<Rightarrow> Inl e
      | Inr null1 \<Rightarrow>
         (case DataAndAddressItem NULL_ADDRESS_ITEM [] of
            Inl e \<Rightarrow> Inl e
          | Inr null2 \<Rightarrow>
              (let self_packets =
                     (if length packets < 1 then [null1, null2]
                      else if length packets < 2 then [null1, null2][1 := packets ! 0]
                      else packets)
               in Inr \<lparr> cpf_packets = self_packets,
                        cpf_item_count = length self_packets,
                        cpf_packet_bytes = concat (map DataAndAddressItem_bytes self_packets) \<rparr>)))"

text \<open>
  The \<open>while\<close> loop of \<open>CommonPacketFormat.from_bytes\<close>. The assignment
  \<open>self.packets[packet_index] = ...\<close> raises IndexError when \<open>packet_index\<close> is not an
  index of the list: assignment never extends a Python list.
\<close>

function from_bytes_loop ::
  "bytes \<Rightarrow> nat \<Rightarrow> nat \<Rightarrow> data_and_address_item list \<Rightarrow>
   py_error + data_and_address_item list" where
  "from_bytes_loop packet_bytes packet_offset packet_index packets =
     (if packet_offset < length packet_bytes then
        (case DataAndAddressItem
                (slice packet_offset (packet_offset + 2) packet_bytes)
                (slice (packet_offset + 4)
                   (packet_offset +
                    int_from_bytes (slice (packet_offset + 2) (packet_offset + 4) packet_bytes)
                    + 4)
                   packet_bytes) of
           Inl e \<Rightarrow> Inl e
         | Inr item \<Rightarrow>
             if packet_index < length packets then
               from_bytes_loop packet_bytes
                 (packet_offset +
                  int_from_bytes (slice (packet_offset + 2) (packet_offset + 4) packet_bytes)
                  + 4)
                 (packet_index + 1)
                 (packets[packet_index := item])
             else Inl IndexError)
      else Inr packets)"
  by pat_completeness auto
termination
  by (relation "measure (\<lambda>(pb, off, idx, ps). length pb - off)") auto

declare from_bytes_loop.simps [simp del]

definition CommonPacketFormat_from_bytes ::
  "common_packet_format \<Rightarrow> bytes \<Rightarrow> py_error + common_packet_format" where
  "CommonPacketFormat_from_bytes self bytes_common_packet_format =
     (let item_count = int_from_bytes (slice 0 2 bytes_common_packet_format);
          packet_bytes = drop 2 bytes_common_packet_format
      in case from_bytes_loop packet_bytes 0 0 (cpf_packets self) of
           Inl e \<Rightarrow> Inl e
         | Inr ps \<Rightarrow>
             Inr (self \<lparr> cpf_item_count := item_count,
                         cpf_packet_bytes := packet_bytes,
                         cpf_packets := ps \<rparr>))"

section \<open>n_series.py: segmented transfer\<close>

text \<open>
  Modelled from the spec: the module \<open>cip_datatypes\<close> (the classes \<open>CIPDataType\<close>,
  \<open>CIPString\<close>, \<open>CIPArray\<close>, \<open>CIPStructure\<close>, \<open>CIPAbbreviatedStructure\<close> and the
  elementary types) is not part of the sources. A data type object is the record of the
  attributes that \<open>n_series.py\<close> reads and writes; its class is the tag that the
  \<open>isinstance\<close> tests inspect, and \<open>data_type_code()\<close> of a class is its constant in
  \<open>CIPDataTypes\<close>.
\<close>

datatype cip_class =
    CIPString
  | CIPArray
  | CIPStructure
  | CIPAbbreviatedStructure
  | CIPElementary bytes

fun data_type_code :: "cip_class \<Rightarrow> bytes" where
  "data_type_code CIPString = [0xd0]"
| "data_type_code CIPArray = [0xa3]"
| "data_type_code CIPStructure = [0xa2]"
| "data_type_code CIPAbbreviatedStructure = [0xa0]"
| "data_type_code (CIPElementary code) = code"

record cip_datatype_object =
  obj_class :: cip_class
  obj_size :: nat
  obj_data :: bytes
  obj_variable_name :: py_str
  obj_array_data_type :: bytes
  obj_instance_id :: nat

text \<open>\<open>struct.pack("<L", v)\<close> and \<open>struct.pack("<H", v)\<close> raise \<open>struct.error\<close> out of range.\<close>

definition struct_pack_L :: "nat \<Rightarrow> py_error + bytes" where
  "struct_pack_L v = (if v < 4294967296 then Inr (le_bytes 4 v) else Inl StructError)"

definition struct_pack_H :: "nat \<Rightarrow> py_error + bytes" where
  "struct_pack_H v = (if v < 65536 then Inr (le_bytes 2 v) else Inl StructError)"

text \<open>\<open>SimpleDataSegmentRequest(offset, size).bytes()\<close>.\<close>

definition SimpleDataSegmentRequest_bytes :: "nat \<Rightarrow> nat \<Rightarrow> py_error + bytes" where
  "SimpleDataSegmentRequest_bytes offset size_arg =
     (case struct_pack_L offset of
        Inl e \<Rightarrow> Inl e
      | Inr o_bytes \<Rightarrow>
         (case struct_pack_H size_arg of
            Inl e \<Rightarrow> Inl e
          | Inr s_bytes \<Rightarrow> Inr ([0x80] @ [0x03] @ o_bytes @ s_bytes)))"

definition MAXIMUM_LENGTH :: nat where "MAXIMUM_LENGTH = 502"

text \<open>
  The request path of \<open>_simple_data_segment_read\<close> and \<open>_simple_data_segment_write\<close>:
  the path of the variable followed by the simple data segment. The function
  \<open>variable_request_path_segment\<close> is not part of the sources and is the parameter
  \<open>vrps\<close>; it may raise.
\<close>

definition simple_data_segment_path ::
  "(py_str \<Rightarrow> py_error + bytes) \<Rightarrow> cip_datatype_object \<Rightarrow> nat \<Rightarrow> nat \<Rightarrow> py_error + bytes" where
  "simple_data_segment_path vrps cip_datatype_object offset size_arg =
     (case vrps (obj_variable_name cip_datatype_object) of
        Inl e \<Rightarrow> Inl e
      | Inr request_path \<Rightarrow>
         (case SimpleDataSegmentRequest_bytes offset size_arg of
            Inl e \<Rightarrow> Inl e
          | Inr segment \<Rightarrow> Inr (request_path @ segment)))"

text \<open>
  The services \<open>read_tag_service\<close> and \<open>write_tag_service\<close> are not part of the
  sources. Each is one request and reply round trip with the controller, so each is a
  parameter that takes the state of the controller and the request and returns the
  reply with the state of the controller after it, or raises: \<open>rts\<close> for reading and
  \<open>wts\<close> for writing. The state is threaded through the calls in the order in which
  the code makes them.
\<close>

text \<open>\<open>_simple_data_segment_read\<close>.\<close>

definition simple_data_segment_read ::
  "(py_str \<Rightarrow> py_error + bytes) \<Rightarrow> ('s \<Rightarrow> bytes \<Rightarrow> py_error + cip_reply \<times> 's) \<Rightarrow>
   cip_datatype_object \<Rightarrow> nat \<Rightarrow> nat \<Rightarrow> 's \<Rightarrow> py_error + cip_reply \<times> 's" where
  "simple_data_segment_read vrps rts cip_datatype_object offset read_size s =
     (case simple_data_segment_path vrps cip_datatype_object offset read_size of
        Inl e \<Rightarrow> Inl e
      | Inr request_path \<Rightarrow> rts s request_path)"

text \<open>The loop of \<open>_multi_message_variable_read\<close>.\<close>

function multi_message_read_loop ::
  "(py_str \<Rightarrow> py_error + bytes) \<Rightarrow> ('s \<Rightarrow> bytes \<Rightarrow> py_error + cip_reply \<times> 's) \<Rightarrow>
   cip_datatype_object \<Rightarrow> nat \<Rightarrow> nat \<Rightarrow> bytes \<Rightarrow> 's \<Rightarrow> py_error + bytes \<times> 's" where
  "multi_message_read_loop vrps rts cip_datatype_object burn_characters offset data s =
     (if offset < obj_size cip_datatype_object then
        (let max_read_size = MAXIMUM_LENGTH - 8;
             read_size =
               (if obj_size cip_datatype_object - offset > max_read_size then max_read_size
                else obj_size cip_datatype_object - offset)
         in case simple_data_segment_read vrps rts cip_datatype_object offset read_size s of
              Inl e \<Rightarrow> Inl e
            | Inr (response, s') \<Rightarrow>
                multi_message_read_loop vrps rts cip_datatype_object burn_characters
                  (offset + max_read_size)
                  (data @ drop (2 + burn_characters) (reply_data response)) s')
      else Inr (data, s))"
  by pat_completeness auto
termination
  by (relation "measure (\<lambda>(vrps, rts, obj, burn, offset, data, s). obj_size obj - offset)")
     (auto simp: MAXIMUM_LENGTH_def)

declare multi_message_read_loop.simps [simp del]

text \<open>
  \<open>_multi_message_variable_read\<close> with its default \<open>offset=0\<close>; the decoded
  \<open>value()\<close> of the object is outside the model, the object with its data is returned.
\<close>

definition multi_message_variable_read ::
  "(py_str \<Rightarrow> py_error + bytes) \<Rightarrow> ('s \<Rightarrow> bytes \<Rightarrow> py_error + cip_reply \<times> 's) \<Rightarrow>
   cip_datatype_object \<Rightarrow> 's \<Rightarrow> py_error + cip_datatype_object \<times> 's" where
  "multi_message_variable_read vrps rts cip_datatype_object s =
     (let burn_characters = (if obj_class cip_datatype_object = CIPString then 2 else 0)
      in case multi_message_read_loop vrps rts cip_datatype_object burn_characters 0 [] s of
           Inl e \<Rightarrow> Inl e
         | Inr (data, s') \<Rightarrow> Inr (cip_datatype_object \<lparr> obj_data := data \<rparr>, s'))"

text \<open>
  \<open>_simple_data_segment_write\<close>. A string chunk is prefixed with its length; an array
  chunk is sent as it is; for every other type code no branch assigns \<open>response\<close>, and
  \<open>return response\<close> raises UnboundLocalError.
\<close>

definition simple_data_segment_write ::
  "(py_str \<Rightarrow> py_error + bytes) \<Rightarrow>
   ('s \<Rightarrow> bytes \<Rightarrow> bytes \<Rightarrow> bytes \<Rightarrow> py_error + cip_reply \<times> 's) \<Rightarrow>
   cip_datatype_object \<Rightarrow> nat \<Rightarrow> nat \<Rightarrow> bytes \<Rightarrow> 's \<Rightarrow> py_error + cip_reply \<times> 's" where
  "simple_data_segment_write vrps wts cip_datatype_object offset write_size data s =
     (case simple_data_segment_path vrps cip_datatype_object offset write_size of
        Inl e \<Rightarrow> Inl e
      | Inr request_path \<Rightarrow>
          if data_type_code (obj_class cip_datatype_object) = data_type_code CIPString then
            (case struct_pack_H (length data) of
               Inl e \<Rightarrow> Inl e
             | Inr prefix \<Rightarrow>
                 wts s request_path (data_type_code (obj_class cip_datatype_object))
                   (prefix @ data))
          else if data_type_code (obj_class cip_datatype_object) = data_type_code CIPArray then
            wts s request_path (obj_array_data_type cip_datatype_object) data
          else Inl UnboundLocalError)"

text \<open>The loop of \<open>_multi_message_variable_write\<close>; it returns nothing but the effect.\<close>

function multi_message_write_loop ::
  "(py_str \<Rightarrow> py_error + bytes) \<Rightarrow>
   ('s \<Rightarrow> bytes \<Rightarrow> bytes \<Rightarrow> bytes \<Rightarrow> py_error + cip_reply \<times> 's) \<Rightarrow>
   cip_datatype_object \<Rightarrow> nat \<Rightarrow> 's \<Rightarrow> py_error + 's" where
  "multi_message_write_loop vrps wts cip_datatype_object offset s =
     (if offset < obj_size cip_datatype_object then
        (let max_write_size = 400;
             write_size =
               (if obj_size cip_datatype_object - offset > max_write_size then max_write_size
                else obj_size cip_datatype_object - offset)
         in case simple_data_segment_write vrps wts cip_datatype_object offset write_size
                   (slice offset (offset + write_size) (obj_data cip_datatype_object)) s of
              Inl e \<Rightarrow> Inl e
            | Inr (response, s') \<Rightarrow>
                multi_message_write_loop vrps wts cip_datatype_object
                  (offset + max_write_size) s')
      else Inr s)"
  by pat_completeness auto
termination
  by (relation "measure (\<lambda>(vrps, wts, obj, offset, s). obj_size obj - offset)") auto

declare multi_message_write_loop.simps [simp del]

text \<open>
  \<open>_multi_message_variable_write\<close> with its default \<open>offset=0\<close>. The method
  \<open>from_value\<close> of the object's class is not part of the sources and is the parameter
  \<open>from_value\<close>: it stores the serialised value in the object, or raises.
\<close>

definition multi_message_variable_write ::
  "(cip_datatype_object \<Rightarrow> 'v \<Rightarrow> py_error + cip_datatype_object) \<Rightarrow>
   (py_str \<Rightarrow> py_error + bytes) \<Rightarrow>
   ('s \<Rightarrow> bytes \<Rightarrow> bytes \<Rightarrow> bytes \<Rightarrow> py_error + cip_reply \<times> 's) \<Rightarrow>
   cip_datatype_object \<Rightarrow> 'v \<Rightarrow> 's \<Rightarrow> py_error + 's" where
  "multi_message_variable_write from_value vrps wts cip_datatype_object data s =
     (case from_value cip_datatype_object data of
        Inl e \<Rightarrow> Inl e
      | Inr obj \<Rightarrow> multi_message_write_loop vrps wts obj 0 s)"

section \<open>n_series.py: variable registry access\<close>

text \<open>
  Which classes \<open>read_variable\<close> and \<open>write_variable\<close> hand to the segmented transfer:
  \<open>isinstance(obj, (CIPString, CIPArray, CIPStructure, CIPAbbreviatedStructure))\<close>.
\<close>

fun is_multi_message_class :: "cip_class \<Rightarrow> bool" where
  "is_multi_message_class CIPString = True"
| "is_multi_message_class CIPArray = True"
| "is_multi_message_class CIPStructure = True"
| "is_multi_message_class CIPAbbreviatedStructure = True"
| "is_multi_message_class (CIPElementary code) = False"

text \<open>
  \<open>write_variable\<close>. The registry \<open>self.variables\<close> is a dictionary from names to data
  type objects; \<open>dict.get\<close> returns \<open>None\<close> for an absent name, and the method call
  \<open>None.from_value(data)\<close> that follows raises AttributeError.
\<close>

definition write_variable ::
  "(cip_datatype_object \<Rightarrow> 'v \<Rightarrow> py_error + cip_datatype_object) \<Rightarrow>
   (py_str \<Rightarrow> py_error + bytes) \<Rightarrow>
   ('s \<Rightarrow> bytes \<Rightarrow> bytes \<Rightarrow> bytes \<Rightarrow> py_error + cip_reply \<times> 's) \<Rightarrow>
   (py_str \<rightharpoonup> cip_datatype_object) \<Rightarrow> py_str \<Rightarrow> 'v \<Rightarrow> 's \<Rightarrow> py_error + 's" where
  "write_variable from_value vrps wts variables variable_name data s =
     (case vrps variable_name of
        Inl e \<Rightarrow> Inl e
      | Inr request_path \<Rightarrow>
         (case variables variable_name of
            None \<Rightarrow> Inl AttributeError
          | Some cip_datatype_object \<Rightarrow>
             (case from_value cip_datatype_object data of
                Inl e \<Rightarrow> Inl e
              | Inr obj \<Rightarrow>
                  if is_multi_message_class (obj_class obj) then
                    multi_message_variable_write from_value vrps wts obj data s
                  else
                    (case wts s request_path (data_type_code (obj_class obj)) (obj_data obj) of
                       Inl e \<Rightarrow> Inl e
                     | Inr (response, s') \<Rightarrow> Inr s'))))"

text \<open>
  \<open>read_variable\<close>. For an absent name \<open>isinstance(None, ...)\<close> is false, so the
  \<open>else\<close> branch makes a read round trip and then calls \<open>None.from_bytes\<close>, which
  raises AttributeError. The method \<open>from_bytes\<close> of the elementary classes is the
  parameter \<open>from_bytes\<close>.
\<close>

definition read_variable ::
  "(cip_datatype_object \<Rightarrow> bytes \<Rightarrow> py_error + cip_datatype_object) \<Rightarrow>
   (py_str \<Rightarrow> py_error + bytes) \<Rightarrow> ('s \<Rightarrow> bytes \<Rightarrow> py_error + cip_reply \<times> 's) \<Rightarrow>
   (py_str \<rightharpoonup> cip_datatype_object) \<Rightarrow> py_str \<Rightarrow> 's \<Rightarrow>
   py_error + cip_datatype_object \<times> 's" where
  "read_variable from_bytes vrps rts variables variable_name s =
     (case vrps variable_name of
        Inl e \<Rightarrow> Inl e
      | Inr request_path \<Rightarrow>
         (case variables variable_name of
            None \<Rightarrow>
              (case rts s request_path of
                 Inl e \<Rightarrow> Inl e
               | Inr (response, s') \<Rightarrow> Inl AttributeError)
          | Some cip_datatype_object \<Rightarrow>
              if is_multi_message_class (obj_class cip_datatype_object) then
                multi_message_variable_read vrps rts cip_datatype_object s
              else
                (case rts s request_path of
                   Inl e \<Rightarrow> Inl e
                 | Inr (response, s') \<Rightarrow>
                    (case from_bytes cip_datatype_object (reply_data response) of
                       Inl e \<Rightarrow> Inl e
                     | Inr obj \<Rightarrow> Inr (obj, s')))))"

section \<open>n_series.py: structure member resolution\<close>



















section \<open>Helper facts\<close>

lemma length_le_bytes: "length (le_bytes n v) = n"
  by (induction n arbitrary: v) auto

lemma to_bytes_length: "to_bytes v n = Inr bs \<Longrightarrow> length bs = n"
  by (auto simp: to_bytes_def length_le_bytes split: if_splits)

section \<open>Symbolic request path\<close>

lemma tag_request_path_even: "tag_request_path t = Inr p \<Longrightarrow> even (length p)"
  by (auto simp: tag_request_path_def Let_def dest!: to_bytes_length
      split: sum.splits if_splits)

text \<open>
  Claim C9. For a tag name of byte length L (at most 255) the encoded symbolic path has
  even length and its length byte is L. The length byte the code writes is
  \<open>len(tag_name)\<close>, the number of code points, while the name is written in UTF-8: for
  the one-character name U+00E9, whose UTF-8 form has L = 2 bytes, the path is
  91 01 C3 A9, with length byte 1.
\<close>

theorem tag_request_path_non_ascii:
  "encode_utf8 [0xE9] = Inr [0xC3, 0xA9] \<and>
   tag_request_path [0xE9] = Inr [0x91, 0x01, 0xC3, 0xA9]"
  by (simp add: tag_request_path_def to_bytes_def utf8_char_def)

section \<open>Session handle before registration\<close>

text \<open>
  Claim C10. From construction until \<open>register_session\<close> stores a handle, the session
  handle is 8 bytes long, so the message \<open>send_rr_data\<close> builds serialises to 28 bytes
  before the payload: command, length, eight handle bytes, and only then status, sender
  context and options, each four bytes later than in the 24-byte header.
\<close>

theorem send_rr_data_unregistered_header:
  assumes "session_handle_id s = session_handle_id EIP_init"
    and "length csd < 65536"
  shows "length (session_handle_id s) = 8 \<and>
    (\<exists>m. send_rr_data_message s csd = Inr m \<and>
       EIPMessage_bytes m =
         [0x6f, 0x00] @ le_bytes 2 (length csd) @ session_handle_id s @
         msg_status m @ msg_sender_context_data m @ msg_command_options m @ csd \<and>
       length (EIPMessage_bytes m) = 28 + length csd \<and>
       slice 4 12 (EIPMessage_bytes m) = session_handle_id s \<and>
       slice 12 16 (EIPMessage_bytes m) = msg_status m \<and>
       slice 16 24 (EIPMessage_bytes m) = msg_sender_context_data m \<and>
       slice 24 28 (EIPMessage_bytes m) = msg_command_options m \<and>
       drop 28 (EIPMessage_bytes m) = csd)"
  using assms
  by (simp add: send_rr_data_message_def EIPMessage_def to_bytes_def EIP_init_def
      EIPMessage_bytes_def default_status_def default_sender_context_data_def
      default_command_options_def length_le_bytes slice_def)

theorem send_rr_data_unregistered_header_witness:
  "length (session_handle_id EIP_init) = 8 \<and>
   (\<exists>m. send_rr_data_message EIP_init [0x01, 0x02] = Inr m \<and>
      length (EIPMessage_bytes m) = 30 \<and>
      drop 28 (EIPMessage_bytes m) = [0x01, 0x02])"
  using send_rr_data_unregistered_header [of EIP_init "[0x01, 0x02]"]
  by clarsimp


lemma to_bytes_2:
  "to_bytes v 2 =
     (if v < 65536 then Inr [of_nat (v mod 256), of_nat (v div 256 mod 256)]
      else Inl OverflowError)"
  by (simp add: to_bytes_def numeral_2_eq_2)

lemma le_bytes_2: "le_bytes 2 v = [of_nat (v mod 256), of_nat (v div 256 mod 256)]"
  by (simp add: numeral_2_eq_2)

lemma int_from_bytes_bound: "int_from_bytes bs < 256 ^ length bs"
proof (induction bs)
  case Nil
  show ?case by simp
next
  case (Cons b bs)
  have "unat b < 256" using unsigned_less [of b, where ?'a = nat] by simp
  with Cons show ?case by simp
qed

lemma length_slice: "length (slice a b xs) \<le> b - a"
  by (simp add: slice_def)


lemma take_slice: "a \<le> b \<Longrightarrow> take a xs @ slice a b xs = take b xs"
proof -
  assume "a \<le> b"
  then have "take a xs = take a (take b xs)" by (simp add: min_def)
  then show ?thesis unfolding slice_def by (simp only: append_take_drop_id)
qed

lemma slice_single: "i < length xs \<Longrightarrow> slice i (Suc i) xs = [xs ! i]"
  by (simp add: slice_def take_Suc_conv_app_nth)

section \<open>Decoding an encapsulation message\<close>

lemma slice_fields:
  "slice 0 2 buf @ slice 2 4 buf @ slice 4 8 buf @ slice 8 12 buf @ slice 12 20 buf @
   slice 20 24 buf @ drop 24 buf = buf"
proof -
  have s0: "slice 0 2 buf = take 2 buf" by (simp add: slice_def)
  have a: "take 2 buf @ slice 2 4 buf = take 4 buf" by (rule take_slice) simp
  have b: "take 4 buf @ slice 4 8 buf = take 8 buf" by (rule take_slice) simp
  have c: "take 8 buf @ slice 8 12 buf = take 12 buf" by (rule take_slice) simp
  have d: "take 12 buf @ slice 12 20 buf = take 20 buf" by (rule take_slice) simp
  have e: "take 20 buf @ slice 20 24 buf = take 24 buf" by (rule take_slice) simp
  show ?thesis
    by (simp only: s0 append_assoc [symmetric] a b c d e append_take_drop_id)
qed

lemma EIPMessage_default_eq:
  "EIPMessage_default =
     Inr \<lparr> msg_command = [0, 0], msg_length = [0, 0],
           msg_session_handle_id = [0, 0, 0, 0], msg_status = [0, 0, 0, 0],
           msg_sender_context_data = [0, 0, 0, 0, 0, 0, 0, 0],
           msg_command_options = [0, 0, 0, 0], msg_command_data = [] \<rparr>"
  by (simp add: EIPMessage_default_def EIPMessage_def to_bytes_2 default_command_def
      default_session_handle_id_def default_status_def default_sender_context_data_def
      default_command_options_def)

text \<open>
  Claim C5 says that decoding fewer than 24 bytes fails with FrameTooShort. The five
  bytes 6F 00 04 00 01 decode, without error, into a message whose session handle is one
  byte long and whose status, sender context, options and payload are empty.
\<close>

theorem EIPMessage_from_bytes_five_bytes:
  "(case EIPMessage_default of
      Inl e \<Rightarrow> Inl e
    | Inr self \<Rightarrow> EIPMessage_from_bytes self [0x6f, 0x00, 0x04, 0x00, 0x01]) =
   Inr \<lparr> msg_command = [0x6f, 0x00], msg_length = [0x04, 0x00],
         msg_session_handle_id = [0x01], msg_status = [], msg_sender_context_data = [],
         msg_command_options = [], msg_command_data = [] \<rparr>"
  by (simp add: EIPMessage_default_eq EIPMessage_from_bytes_def slice_def)

text \<open>
  Claim C5, as the code has it. Decoding a buffer of fewer than 24 bytes never fails: it
  yields a message whose header fields are the slices [0:2], [2:4], [4:8], [8:12],
  [12:20] and [20:24] of the buffer, short or empty where the buffer ends early, and
  whose payload is empty; the fields, which together hold fewer than 24 bytes,
  concatenate back to the buffer.
\<close>

theorem EIPMessage_from_bytes_short:
  assumes "length buf < 24"
  shows "\<exists>m. EIPMessage_from_bytes self buf = Inr m \<and>
     msg_command m = slice 0 2 buf \<and>
     msg_length m = slice 2 4 buf \<and>
     msg_session_handle_id m = slice 4 8 buf \<and>
     msg_status m = slice 8 12 buf \<and>
     msg_sender_context_data m = slice 12 20 buf \<and>
     msg_command_options m = slice 20 24 buf \<and>
     msg_command_data m = [] \<and>
     length (msg_command m) = min 2 (length buf) \<and>
     length (msg_length m) = min 4 (length buf) - 2 \<and>
     length (msg_session_handle_id m) = min 8 (length buf) - 4 \<and>
     length (msg_status m) = min 12 (length buf) - 8 \<and>
     length (msg_sender_context_data m) = min 20 (length buf) - 12 \<and>
     length (msg_command_options m) = length buf - 20 \<and>
     EIPMessage_bytes m = buf"
proof -
  let ?m = "self \<lparr> msg_command := slice 0 2 buf, msg_length := slice 2 4 buf,
      msg_session_handle_id := slice 4 8 buf, msg_status := slice 8 12 buf,
      msg_sender_context_data := slice 12 20 buf, msg_command_options := slice 20 24 buf,
      msg_command_data := drop 24 buf \<rparr>"
  have 1: "EIPMessage_from_bytes self buf = Inr ?m" by (simp add: EIPMessage_from_bytes_def)
  have 2: "msg_command_data ?m = []" using assms by simp
  have 3: "EIPMessage_bytes ?m = buf"
    using slice_fields [of buf] by (simp add: EIPMessage_bytes_def)
  have 4: "length (slice 0 2 buf) = min 2 (length buf)"
    "length (slice 2 4 buf) = min 4 (length buf) - 2"
    "length (slice 4 8 buf) = min 8 (length buf) - 4"
    "length (slice 8 12 buf) = min 12 (length buf) - 8"
    "length (slice 12 20 buf) = min 20 (length buf) - 12"
    "length (slice 20 24 buf) = length buf - 20"
    using assms by (simp_all add: slice_def min_def)
  show ?thesis
  proof (intro exI conjI)
    show "EIPMessage_from_bytes self buf = Inr ?m" by (rule 1)
    show "EIPMessage_bytes ?m = buf" by (rule 3)
  qed (use 2 4 in simp_all)
qed

theorem EIPMessage_from_bytes_short_witness:
  "\<exists>m. EIPMessage_from_bytes
          \<lparr> msg_command = [0, 0], msg_length = [0, 0],
            msg_session_handle_id = [0, 0, 0, 0], msg_status = [0, 0, 0, 0],
            msg_sender_context_data = [0, 0, 0, 0, 0, 0, 0, 0],
            msg_command_options = [0, 0, 0, 0], msg_command_data = [] \<rparr>
          [0x6f, 0x00, 0x04, 0x00, 0x01] = Inr m \<and>
        msg_command m = [0x6f, 0x00] \<and> msg_length m = [0x04, 0x00] \<and>
        msg_session_handle_id m = [0x01] \<and> msg_status m = [] \<and>
        msg_sender_context_data m = [] \<and> msg_command_options m = [] \<and>
        msg_command_data m = [] \<and>
        EIPMessage_bytes m = [0x6f, 0x00, 0x04, 0x00, 0x01]"
  using EIPMessage_from_bytes_short
    [of "[0x6f, 0x00, 0x04, 0x00, 0x01]"
        "\<lparr> msg_command = [0, 0], msg_length = [0, 0],
           msg_session_handle_id = [0, 0, 0, 0], msg_status = [0, 0, 0, 0],
           msg_sender_context_data = [0, 0, 0, 0, 0, 0, 0, 0],
           msg_command_options = [0, 0, 0, 0], msg_command_data = [] \<rparr>"]
  by (clarsimp simp: slice_def)

section \<open>Decoding a CIP reply\<close>

text \<open>
  Claim C2 says that with extended-status size k the extended status is the bytes at
  offsets 4 to 4 + 2k and that a reply shorter than 4 + 2k bytes is rejected. The five
  bytes CC 00 00 01 AA have k = 1 and are shorter than 6 bytes: they decode, without
  error, into a reply whose extended status and reply data are both empty.
\<close>

theorem CIPReply_short_reply:
  "CIPReply [0xCC, 0x00, 0x00, 0x01, 0xAA] =
     Inr \<lparr> reply_service = [0xCC], reserved = [0x00], general_status = [0x00],
           extended_status_size = [0x01], extended_status = [], reply_data = [] \<rparr>"
  by (simp add: CIPReply_def slice_def)

text \<open>
  Claim C2, as the code has it. For every reply buffer whose extended-status-size byte
  (the byte at offset 3) equals k, decoding never fails and yields as reply data the
  bytes from offset 4 + 2k to the end of the buffer, which is no byte at all when the
  buffer is shorter than that.
\<close>

theorem CIPReply_reply_data:
  assumes "3 < length buf" and "unat (buf ! 3) = k"
  shows "\<exists>r. CIPReply buf = Inr r \<and> int_from_bytes (extended_status_size r) = k \<and>
     reply_data r = drop (4 + 2 * k) buf \<and>
     length (reply_data r) = length buf - (4 + 2 * k)"
proof -
  have "slice 3 4 buf = [buf ! 3]" using slice_single [of 3 buf] assms(1) by simp
  then show ?thesis using assms by (simp add: CIPReply_def Let_def mult.commute)
qed

theorem CIPReply_reply_data_witness:
  "\<exists>r. CIPReply [0xCC, 0x00, 0x00, 0x01, 0xAA, 0xBB, 0x2a, 0x00] = Inr r \<and>
     int_from_bytes (extended_status_size r) = 1 \<and> reply_data r = [0x2a, 0x00]"
  using CIPReply_reply_data [of "[0xCC, 0x00, 0x00, 0x01, 0xAA, 0xBB, 0x2a, 0x00]" 1]
  by clarsimp

section \<open>Decoding the Common Packet Format\<close>

lemma CommonPacketFormat_empty:
  "CommonPacketFormat [] =
     Inr \<lparr> cpf_packets =
             [\<lparr> item_type_id = [0, 0], item_length = [0, 0], item_data = [] \<rparr>,
              \<lparr> item_type_id = [0, 0], item_length = [0, 0], item_data = [] \<rparr>],
           cpf_item_count = 2, cpf_packet_bytes = [0, 0, 0, 0, 0, 0, 0, 0] \<rparr>"
  by (simp add: CommonPacketFormat_def DataAndAddressItem_def to_bytes_2 NULL_ADDRESS_ITEM_def
      DataAndAddressItem_bytes_def)

lemma from_bytes_loop_done:
  "length pb \<le> off \<Longrightarrow> from_bytes_loop pb off idx ps = Inr ps"
  by (subst from_bytes_loop.simps) simp

lemma from_bytes_loop_step:
  "off < length pb \<Longrightarrow>
   from_bytes_loop pb off idx ps =
     (case DataAndAddressItem (slice off (off + 2) pb)
             (slice (off + 4) (off + int_from_bytes (slice (off + 2) (off + 4) pb) + 4) pb) of
        Inl e \<Rightarrow> Inl e
      | Inr item \<Rightarrow>
          if idx < length ps then
            from_bytes_loop pb (off + int_from_bytes (slice (off + 2) (off + 4) pb) + 4)
              (idx + 1) (ps[idx := item])
          else Inl IndexError)"
  by (subst from_bytes_loop.simps) simp

text \<open>
  Claim C7 says that the decoder accepts any number of well-formed items. Every caller
  decodes into \<open>CommonPacketFormat([])\<close>, whose list holds two items; a buffer with the
  item count 3 and three well-formed empty items raises IndexError at the third.
\<close>

theorem CommonPacketFormat_from_bytes_three_items:
  "(case CommonPacketFormat [] of
      Inl e \<Rightarrow> Inl e
    | Inr self \<Rightarrow>
        CommonPacketFormat_from_bytes self
          [0x03, 0x00,  0x00, 0x00, 0x00, 0x00,  0x00, 0x00, 0x00, 0x00,
           0x00, 0x00, 0x00, 0x00]) = Inl IndexError"
  by (simp add: CommonPacketFormat_empty CommonPacketFormat_from_bytes_def
      from_bytes_loop_step from_bytes_loop_done DataAndAddressItem_def to_bytes_2 slice_def)

text \<open>
  Claim C6 says that an item whose declared length reads past the end of the buffer
  fails with TruncatedItem. The buffer 01 00 B2 00 05 00 AA declares five data bytes and
  holds one: it decodes, without error, into an item with that one byte, whose length
  field says 1.
\<close>

theorem CommonPacketFormat_from_bytes_truncated:
  "(case CommonPacketFormat [] of
      Inl e \<Rightarrow> Inl e
    | Inr self \<Rightarrow>
        CommonPacketFormat_from_bytes self [0x01, 0x00,  0xb2, 0x00, 0x05, 0x00, 0xaa]) =
   Inr \<lparr> cpf_packets =
           [\<lparr> item_type_id = [0xb2, 0x00], item_length = [0x01, 0x00], item_data = [0xaa] \<rparr>,
            \<lparr> item_type_id = [0x00, 0x00], item_length = [0x00, 0x00], item_data = [] \<rparr>],
         cpf_item_count = 1, cpf_packet_bytes = [0xb2, 0x00, 0x05, 0x00, 0xaa] \<rparr>"
  by (simp add: CommonPacketFormat_empty CommonPacketFormat_from_bytes_def
      from_bytes_loop_step from_bytes_loop_done DataAndAddressItem_def to_bytes_2 slice_def)

lemma declared_length_bound:
  "int_from_bytes (slice (off + 2) (off + 4) pb) < 65536"
proof -
  have "length (slice (off + 2) (off + 4) pb) \<le> 2"
    using length_slice [of "off + 2" "off + 4" pb] by simp
  then have "(256::nat) ^ length (slice (off + 2) (off + 4) pb) \<le> 256 ^ 2"
    by (intro power_increasing) simp_all
  with int_from_bytes_bound [of "slice (off + 2) (off + 4) pb"] show ?thesis by simp
qed

text \<open>
  Claim C6, as the code has it. At every offset inside the data region whose item index
  is inside the receiving packet list (two items long in every caller), the decoder
  stores an item made of the two type bytes and of the data
  bytes that the declared length L covers as far as the buffer reaches, the length field
  being recomputed from them, and goes on at the offset advanced by 4 + L. An item whose
  declared length reads past the end of the buffer is not rejected: it ends the loop
  without error, with the bytes that remain as its data, fewer than L.
\<close>

theorem from_bytes_loop_item:
  assumes "off < length pb" and "idx < length packets"
    and "L = int_from_bytes (slice (off + 2) (off + 4) pb)"
  shows "from_bytes_loop pb off idx packets =
           from_bytes_loop pb (off + L + 4) (idx + 1)
             (packets[idx := \<lparr> item_type_id = slice off (off + 2) pb,
                                item_length = le_bytes 2 (min L (length pb - (off + 4))),
                                item_data = slice (off + 4) (off + L + 4) pb \<rparr>]) \<and>
         (off + 4 \<le> length pb \<and> length pb < off + L + 4 \<longrightarrow>
            from_bytes_loop pb off idx packets =
              Inr (packets[idx := \<lparr> item_type_id = slice off (off + 2) pb,
                                     item_length = le_bytes 2 (length pb - (off + 4)),
                                     item_data = drop (off + 4) pb \<rparr>]) \<and>
            length (drop (off + 4) pb) < L)"
proof -
  let ?d = "slice (off + 4) (off + L + 4) pb"
  have len: "length ?d = min L (length pb - (off + 4))"
    by (simp add: slice_def)
  have "L < 65536" using declared_length_bound [of off pb] assms(3) by simp
  then have "length ?d < 65536" using len by simp
  then have item: "DataAndAddressItem (slice off (off + 2) pb) ?d =
      Inr \<lparr> item_type_id = slice off (off + 2) pb,
            item_length = le_bytes 2 (min L (length pb - (off + 4))),
            item_data = ?d \<rparr>"
    by (simp add: DataAndAddressItem_def to_bytes_2 le_bytes_2 len)
  have step: "from_bytes_loop pb off idx packets =
           from_bytes_loop pb (off + L + 4) (idx + 1)
             (packets[idx := \<lparr> item_type_id = slice off (off + 2) pb,
                                item_length = le_bytes 2 (min L (length pb - (off + 4))),
                                item_data = ?d \<rparr>])"
    using item unfolding assms(3)
    by (subst from_bytes_loop.simps) (simp only: assms(1,2) if_True sum.case)
  have past: "from_bytes_loop pb off idx packets =
              Inr (packets[idx := \<lparr> item_type_id = slice off (off + 2) pb,
                                     item_length = le_bytes 2 (length pb - (off + 4)),
                                     item_data = drop (off + 4) pb \<rparr>]) \<and>
            length (drop (off + 4) pb) < L"
    if h: "off + 4 \<le> length pb" and p: "length pb < off + L + 4"
  proof -
    have d: "?d = drop (off + 4) pb" using p by (simp add: slice_def)
    have m: "min L (length pb - (off + 4)) = length pb - (off + 4)" using p by simp
    have "from_bytes_loop pb (off + L + 4) (idx + 1)
             (packets[idx := \<lparr> item_type_id = slice off (off + 2) pb,
                                item_length = le_bytes 2 (length pb - (off + 4)),
                                item_data = drop (off + 4) pb \<rparr>]) =
          Inr (packets[idx := \<lparr> item_type_id = slice off (off + 2) pb,
                                item_length = le_bytes 2 (length pb - (off + 4)),
                                item_data = drop (off + 4) pb \<rparr>])"
      using p by (subst from_bytes_loop.simps) simp
    with step d m show ?thesis using p h by simp
  qed
  from step past show ?thesis by blast
qed


theorem from_bytes_loop_item_witness:
  "from_bytes_loop [0xb2, 0x00, 0x05, 0x00, 0xaa] 0 0
     [\<lparr> item_type_id = [0, 0], item_length = [0, 0], item_data = [] \<rparr>,
      \<lparr> item_type_id = [0, 0], item_length = [0, 0], item_data = [] \<rparr>] =
   Inr [\<lparr> item_type_id = [0xb2, 0x00], item_length = [0x01, 0x00], item_data = [0xaa] \<rparr>,
        \<lparr> item_type_id = [0, 0], item_length = [0, 0], item_data = [] \<rparr>]"
  using from_bytes_loop_item
    [of 0 "[0xb2, 0x00, 0x05, 0x00, 0xaa]" 0
        "[\<lparr> item_type_id = [0, 0], item_length = [0, 0], item_data = [] \<rparr>,
          \<lparr> item_type_id = [0, 0], item_length = [0, 0], item_data = [] \<rparr>]" 5,
     THEN conjunct2]
  by (simp add: slice_def le_bytes_2)

section \<open>Segmented read\<close>

lemma ceil_div_step:
  assumes "0 < (C::nat)" and "0 < d"
  shows "(d + (C - 1)) div C = Suc ((d - C + (C - 1)) div C)"
proof (cases "C \<le> d")
  case True
  then have "d + (C - 1) = (d - C + (C - 1)) + C" by simp
  then have "(d + (C - 1)) div C = ((d - C + (C - 1)) + C) div C" by (rule arg_cong)
  also have "\<dots> = (d - C + (C - 1)) div C + 1"
    by (rule div_add_self2) (use assms(1) in simp)
  finally show ?thesis by (simp only: Suc_eq_plus1)
next
  case False
  then have z: "(d - C + (C - 1)) div C = 0" using assms(1) by simp
  have "(d + (C - 1)) div C = 1"
    using assms False by (intro div_nat_eqI) simp_all
  with z show ?thesis by simp
qed

lemma ceil_div_bounds:
  assumes "0 < (C::nat)" and "0 < S"
  shows "C * ((S + (C - 1)) div C - 1) < S \<and> S \<le> C * ((S + (C - 1)) div C)"
proof -
  define q where "q = (S + (C - 1)) div C"
  define r where "r = (S + (C - 1)) mod C"
  define m where "m = C * q"
  have e: "S + (C - 1) = m + r"
    unfolding m_def q_def r_def by (simp add: mult.commute)
  have r: "r < C" unfolding r_def using assms(1) by simp
  have d: "C * (q - 1) = m - C" unfolding m_def by (simp add: diff_mult_distrib2)
  from e r assms have "m - C < S \<and> S \<le> m" by linarith
  then show ?thesis using d unfolding m_def q_def by simp
qed

lemma upt_Suc_head: "[0..<Suc n] = 0 # map Suc [0..<n]"
  by (simp only: map_Suc_upt upt_conv_Cons zero_less_Suc)

lemma map_upt_Suc_head: "map f [0..<Suc n] = f 0 # map (\<lambda>i. f (Suc i)) [0..<n]"
  by (simp only: upt_Suc_head list.map map_map comp_def)

lemma foldl_upt_Suc_head:
  "foldl f a [0..<Suc n] = foldl (\<lambda>a i. f a (Suc i)) (f a 0) [0..<n]"
  by (simp only: upt_Suc_head foldl_Cons foldl_map)

lemma SimpleDataSegmentRequest_bytes_ok:
  "offset < 4294967296 \<Longrightarrow> sz < 65536 \<Longrightarrow>
   SimpleDataSegmentRequest_bytes offset sz =
     Inr ([0x80, 0x03] @ le_bytes 4 offset @ le_bytes 2 sz)"
  by (simp add: SimpleDataSegmentRequest_bytes_def struct_pack_L_def struct_pack_H_def)

lemma multi_message_read_loop_step:
  "offset < obj_size obj \<Longrightarrow>
   multi_message_read_loop vrps rts obj burn offset data s =
     (case simple_data_segment_read vrps rts obj offset (min (obj_size obj - offset) 494) s of
        Inl e \<Rightarrow> Inl e
      | Inr (response, s') \<Rightarrow>
          multi_message_read_loop vrps rts obj burn (offset + 494)
            (data @ drop (2 + burn) (reply_data response)) s')"
  by (subst multi_message_read_loop.simps)
     (auto simp: MAXIMUM_LENGTH_def Let_def min_def split: sum.splits)

lemma multi_message_read_loop_done:
  "\<not> offset < obj_size obj \<Longrightarrow>
   multi_message_read_loop vrps rts obj burn offset data s = Inr (data, s)"
  by (subst multi_message_read_loop.simps) simp

lemma multi_message_read_loop_fold:
  assumes vr: "vrps (obj_variable_name obj) = Inr rp"
    and tr: "\<forall>s p. rts s p = Inr (controller s p)"
    and sz: "obj_size obj < 4294967296"
  shows "multi_message_read_loop vrps rts obj burn offset data s =
     Inr (foldl
            (\<lambda>a i.
               (fst a @ drop (2 + burn)
                      (reply_data (fst (controller (snd a)
                         (rp @ [0x80, 0x03] @ le_bytes 4 (offset + i * 494) @
                          le_bytes 2 (min (obj_size obj - (offset + i * 494)) 494))))),
                snd (controller (snd a)
                       (rp @ [0x80, 0x03] @ le_bytes 4 (offset + i * 494) @
                        le_bytes 2 (min (obj_size obj - (offset + i * 494)) 494)))))
            (data, s) [0..<(obj_size obj - offset + 493) div 494])"
proof -
  define P where "P = (\<lambda>off. rp @ [0x80, 0x03] @ le_bytes 4 off @
      le_bytes 2 (min (obj_size obj - off) 494))"
  define F where "F = (\<lambda>off a i.
      (fst a @ drop (2 + burn) (reply_data (fst (controller (snd a) (P (off + i * 494))))),
       snd (controller (snd a) (P (off + i * 494)))))"
  have shift: "(\<lambda>a i. F off a (Suc i)) = F (off + 494)" for off
    by (intro ext) (simp add: F_def add.assoc add.commute [of 494])
  have main: "multi_message_read_loop vrps rts obj burn offset data s =
     Inr (foldl (F offset) (data, s) [0..<(obj_size obj - offset + 493) div 494])"
    for offset data s
  proof (induction "obj_size obj - offset" arbitrary: offset data s rule: less_induct)
    case less
    show ?case
    proof (cases "offset < obj_size obj")
      case False
      then have "(obj_size obj - offset + 493) div 494 = 0" by simp
      then show ?thesis using False by (simp add: multi_message_read_loop_done)
    next
      case True
      have "min (obj_size obj - offset) 494 < 65536" by simp
      moreover have "offset < 4294967296" using True sz by simp
      ultimately have path: "simple_data_segment_path vrps obj offset
          (min (obj_size obj - offset) 494) = Inr (P offset)"
        by (simp add: simple_data_segment_path_def vr SimpleDataSegmentRequest_bytes_ok P_def)
      have rd: "simple_data_segment_read vrps rts obj offset
          (min (obj_size obj - offset) 494) s = Inr (controller s (P offset))"
        by (simp add: simple_data_segment_read_def path tr)
      have n: "(obj_size obj - offset + 493) div 494 =
               Suc ((obj_size obj - (offset + 494) + 493) div 494)"
        using True ceil_div_step [of 494 "obj_size obj - offset"] by simp
      have f0: "F offset (data, s) 0 =
          (data @ drop (2 + burn) (reply_data (fst (controller s (P offset)))),
           snd (controller s (P offset)))"
        by (simp add: F_def)
      have "obj_size obj - (offset + 494) < obj_size obj - offset" using True by simp
      note rec = less [OF this,
          of "data @ drop (2 + burn) (reply_data (fst (controller s (P offset))))"
             "snd (controller s (P offset))"]
      have "multi_message_read_loop vrps rts obj burn offset data s =
          multi_message_read_loop vrps rts obj burn (offset + 494)
            (data @ drop (2 + burn) (reply_data (fst (controller s (P offset)))))
            (snd (controller s (P offset)))"
        by (simp add: multi_message_read_loop_step [OF True] rd split_beta)
      also note rec
      finally show ?thesis
        by (simp only: n foldl_upt_Suc_head shift f0)
    qed
  qed
  show ?thesis using main [of offset data s] unfolding F_def P_def .
qed

lemma le_bytes_4:
  "le_bytes 4 v =
     [of_nat (v mod 256), of_nat (v div 256 mod 256), of_nat (v div 256 div 256 mod 256),
      of_nat (v div 256 div 256 div 256 mod 256)]"
proof -
  have "(4::nat) = Suc (Suc (Suc (Suc 0)))" by simp
  then show ?thesis by (simp only: le_bytes.simps)
qed

text \<open>
  Claim C3. For a variable of declared size S > 0 (a 32-bit field of the controller's
  reply) the read loop makes exactly ceil(S / 494) round trips with the controller,
  494 being the maximum message size 502 minus 8. Round trip number i sends the path of
  the variable followed by the simple data segment for offset 494 * i and size
  min(S - offset, 494), so the offset advances by 494 whatever the size asked for; the
  state of the controller is handed from each round trip to the next, and the data read
  is the concatenation of the replies without their first 2 bytes (4 for a string). The
  path builder and the transport are assumed to return rather than raise.
\<close>

theorem multi_message_variable_read_round_trips:
  assumes "0 < obj_size obj" and "obj_size obj < 4294967296"
    and "vrps (obj_variable_name obj) = Inr rp"
    and "\<forall>s p. rts s p = Inr (controller s p)"
  shows "MAXIMUM_LENGTH - 8 = 494 \<and>
    multi_message_variable_read vrps rts obj s0 =
      (case foldl
              (\<lambda>a i.
                 (fst a @ drop (2 + (if obj_class obj = CIPString then 2 else 0))
                    (reply_data (fst (controller (snd a)
                       (rp @ [0x80, 0x03] @ le_bytes 4 (i * 494) @
                        le_bytes 2 (min (obj_size obj - i * 494) 494))))),
                  snd (controller (snd a)
                         (rp @ [0x80, 0x03] @ le_bytes 4 (i * 494) @
                          le_bytes 2 (min (obj_size obj - i * 494) 494)))))
              ([], s0) [0..<(obj_size obj + 493) div 494] of
         (data, s) \<Rightarrow> Inr (obj \<lparr> obj_data := data \<rparr>, s)) \<and>
    494 * ((obj_size obj + 493) div 494 - 1) < obj_size obj \<and>
    obj_size obj \<le> 494 * ((obj_size obj + 493) div 494)"
proof -
  have "multi_message_variable_read vrps rts obj s0 =
      (case foldl
              (\<lambda>a i.
                 (fst a @ drop (2 + (if obj_class obj = CIPString then 2 else 0))
                    (reply_data (fst (controller (snd a)
                       (rp @ [0x80, 0x03] @ le_bytes 4 (i * 494) @
                        le_bytes 2 (min (obj_size obj - i * 494) 494))))),
                  snd (controller (snd a)
                         (rp @ [0x80, 0x03] @ le_bytes 4 (i * 494) @
                          le_bytes 2 (min (obj_size obj - i * 494) 494)))))
              ([], s0) [0..<(obj_size obj + 493) div 494] of
         (data, s) \<Rightarrow> Inr (obj \<lparr> obj_data := data \<rparr>, s))"
    using multi_message_read_loop_fold
      [of vrps obj rp rts controller "if obj_class obj = CIPString then 2 else 0" 0 "[]" s0]
      assms(2,3,4)
    by (simp add: multi_message_variable_read_def Let_def)
  moreover have "494 * ((obj_size obj + 493) div 494 - 1) < obj_size obj \<and>
    obj_size obj \<le> 494 * ((obj_size obj + 493) div 494)"
    using ceil_div_bounds [of 494 "obj_size obj"] assms(1) by simp
  moreover have "MAXIMUM_LENGTH - 8 = 494" by (simp add: MAXIMUM_LENGTH_def)
  ultimately show ?thesis by blast
qed

theorem multi_message_variable_read_round_trips_witness:
  "multi_message_variable_read tag_request_path
     (\<lambda>s p. Inr (\<lparr> reply_service = [0xCC], reserved = [0x00], general_status = [0x00],
                    extended_status_size = [0x00], extended_status = [],
                    reply_data = [0xd0, 0x00, 0x00, 0x00] @ p \<rparr>, s @ [p]))
     \<lparr> obj_class = CIPString, obj_size = 1000, obj_data = [],
       obj_variable_name = [0x41], obj_array_data_type = [], obj_instance_id = 1 \<rparr> [] =
   Inr (\<lparr> obj_class = CIPString, obj_size = 1000,
          obj_data =
            [0x91, 0x01, 0x41, 0x00, 0x80, 0x03, 0x00, 0x00, 0x00, 0x00, 0xEE, 0x01,
             0x91, 0x01, 0x41, 0x00, 0x80, 0x03, 0xEE, 0x01, 0x00, 0x00, 0xEE, 0x01,
             0x91, 0x01, 0x41, 0x00, 0x80, 0x03, 0xDC, 0x03, 0x00, 0x00, 0x0C, 0x00],
          obj_variable_name = [0x41], obj_array_data_type = [], obj_instance_id = 1 \<rparr>,
        [[0x91, 0x01, 0x41, 0x00, 0x80, 0x03, 0x00, 0x00, 0x00, 0x00, 0xEE, 0x01],
         [0x91, 0x01, 0x41, 0x00, 0x80, 0x03, 0xEE, 0x01, 0x00, 0x00, 0xEE, 0x01],
         [0x91, 0x01, 0x41, 0x00, 0x80, 0x03, 0xDC, 0x03, 0x00, 0x00, 0x0C, 0x00]])"
proof -
  have v: "tag_request_path [0x41] = Inr [0x91, 0x01, 0x41, 0x00]"
    by (simp add: tag_request_path_def to_bytes_def utf8_char_def)
  have n: "[0..<3] = [0, 1, 2::nat]" by (simp add: upt_conv_Cons)
  show ?thesis
    using multi_message_variable_read_round_trips
      [of "\<lparr> obj_class = CIPString, obj_size = 1000, obj_data = [],
            obj_variable_name = [0x41], obj_array_data_type = [], obj_instance_id = 1 \<rparr>"
          tag_request_path "[0x91, 0x01, 0x41, 0x00]"
          "\<lambda>s p. Inr (\<lparr> reply_service = [0xCC], reserved = [0x00], general_status = [0x00],
                    extended_status_size = [0x00], extended_status = [],
                    reply_data = [0xd0, 0x00, 0x00, 0x00] @ p \<rparr>, s @ [p])"
          "\<lambda>s p. (\<lparr> reply_service = [0xCC], reserved = [0x00], general_status = [0x00],
                    extended_status_size = [0x00], extended_status = [],
                    reply_data = [0xd0, 0x00, 0x00, 0x00] @ p \<rparr>, s @ [p])"
          "[]"]
      v
    by (simp add: n le_bytes_2 le_bytes_4)
qed

section \<open>Segmented write\<close>

lemma simple_data_segment_write_string:
  assumes "vrps (obj_variable_name obj) = Inr rp"
    and "\<forall>s p c d. wts s p c d = Inr (controller s p c d)"
    and "obj_class obj = CIPString"
    and "offset < 4294967296" and "ws < 65536" and "length chunk < 65536"
  shows "simple_data_segment_write vrps wts obj offset ws chunk s =
     Inr (controller s (rp @ [0x80, 0x03] @ le_bytes 4 offset @ le_bytes 2 ws) [0xd0]
            (le_bytes 2 (length chunk) @ chunk))"
  using assms
  by (simp add: simple_data_segment_write_def simple_data_segment_path_def
      SimpleDataSegmentRequest_bytes_ok struct_pack_H_def)

lemma simple_data_segment_write_array:
  assumes "vrps (obj_variable_name obj) = Inr rp"
    and "\<forall>s p c d. wts s p c d = Inr (controller s p c d)"
    and "obj_class obj = CIPArray"
    and "offset < 4294967296" and "ws < 65536"
  shows "simple_data_segment_write vrps wts obj offset ws chunk s =
     Inr (controller s (rp @ [0x80, 0x03] @ le_bytes 4 offset @ le_bytes 2 ws)
            (obj_array_data_type obj) chunk)"
  using assms
  by (simp add: simple_data_segment_write_def simple_data_segment_path_def
      SimpleDataSegmentRequest_bytes_ok)

lemma multi_message_write_loop_step:
  "offset < obj_size obj \<Longrightarrow>
   multi_message_write_loop vrps wts obj offset s =
     (case simple_data_segment_write vrps wts obj offset (min (obj_size obj - offset) 400)
             (slice offset (offset + min (obj_size obj - offset) 400) (obj_data obj)) s of
        Inl e \<Rightarrow> Inl e
      | Inr (response, s') \<Rightarrow> multi_message_write_loop vrps wts obj (offset + 400) s')"
  by (subst multi_message_write_loop.simps)
     (auto simp: Let_def min_def split: sum.splits)

lemma multi_message_write_loop_done:
  "\<not> offset < obj_size obj \<Longrightarrow> multi_message_write_loop vrps wts obj offset s = Inr s"
  by (subst multi_message_write_loop.simps) simp

lemma multi_message_write_loop_fold:
  assumes vr: "vrps (obj_variable_name obj) = Inr rp"
    and wt: "\<forall>s p c d. wts s p c d = Inr (controller s p c d)"
    and cl: "obj_class obj = CIPString \<or> obj_class obj = CIPArray"
    and sz: "obj_size obj < 4294967296"
  shows "multi_message_write_loop vrps wts obj offset s =
     Inr (foldl
            (\<lambda>s i.
               snd (controller s
                      (rp @ [0x80, 0x03] @ le_bytes 4 (offset + i * 400) @
                       le_bytes 2 (min (obj_size obj - (offset + i * 400)) 400))
                      (if obj_class obj = CIPString then [0xd0] else obj_array_data_type obj)
                      ((if obj_class obj = CIPString
                        then le_bytes 2
                               (length (slice (offset + i * 400)
                                  (offset + i * 400 +
                                   min (obj_size obj - (offset + i * 400)) 400)
                                  (obj_data obj)))
                        else []) @
                       slice (offset + i * 400)
                         (offset + i * 400 + min (obj_size obj - (offset + i * 400)) 400)
                         (obj_data obj))))
            s [0..<(obj_size obj - offset + 399) div 400])"
proof -
  define W where "W = (\<lambda>off. min (obj_size obj - off) 400)"
  define C where "C = (\<lambda>off. slice off (off + W off) (obj_data obj))"
  define F where "F = (\<lambda>off s i.
      snd (controller s
             (rp @ [0x80, 0x03] @ le_bytes 4 (off + i * 400) @ le_bytes 2 (W (off + i * 400)))
             (if obj_class obj = CIPString then [0xd0] else obj_array_data_type obj)
             ((if obj_class obj = CIPString then le_bytes 2 (length (C (off + i * 400)))
               else []) @ C (off + i * 400))))"
  have shift: "(\<lambda>s i. F off s (Suc i)) = F (off + 400)" for off
    by (intro ext) (simp add: F_def add.assoc add.commute [of 400])
  have main: "multi_message_write_loop vrps wts obj offset s =
     Inr (foldl (F offset) s [0..<(obj_size obj - offset + 399) div 400])" for offset s
  proof (induction "obj_size obj - offset" arbitrary: offset s rule: less_induct)
    case less
    show ?case
    proof (cases "offset < obj_size obj")
      case False
      then have "(obj_size obj - offset + 399) div 400 = 0" by simp
      then show ?thesis using False by (simp add: multi_message_write_loop_done)
    next
      case True
      have w: "W offset < 65536" by (simp add: W_def)
      have o: "offset < 4294967296" using True sz by simp
      have "length (C offset) \<le> W offset"
        using length_slice [of offset "offset + W offset" "obj_data obj"] by (simp add: C_def)
      then have c: "length (C offset) < 65536" using w by simp
      have wr: "simple_data_segment_write vrps wts obj offset (W offset) (C offset) s =
          Inr (controller s
                 (rp @ [0x80, 0x03] @ le_bytes 4 offset @ le_bytes 2 (W offset))
                 (if obj_class obj = CIPString then [0xd0] else obj_array_data_type obj)
                 ((if obj_class obj = CIPString then le_bytes 2 (length (C offset)) else []) @
                  C offset))"
      proof (cases "obj_class obj = CIPString")
        case True
        then show ?thesis
          using simple_data_segment_write_string
            [of vrps obj rp wts controller offset "W offset" "C offset" s] vr wt o w c
          by simp
      next
        case False
        with cl have a: "obj_class obj = CIPArray" by simp
        show ?thesis
          using simple_data_segment_write_array
            [of vrps obj rp wts controller offset "W offset" "C offset" s] vr wt a o w
          by simp
      qed
      have n: "(obj_size obj - offset + 399) div 400 =
               Suc ((obj_size obj - (offset + 400) + 399) div 400)"
        using True ceil_div_step [of 400 "obj_size obj - offset"] by simp
      have f0: "F offset s 0 =
          snd (controller s
                 (rp @ [0x80, 0x03] @ le_bytes 4 offset @ le_bytes 2 (W offset))
                 (if obj_class obj = CIPString then [0xd0] else obj_array_data_type obj)
                 ((if obj_class obj = CIPString then le_bytes 2 (length (C offset)) else []) @
                  C offset))"
        by (simp add: F_def)
      have "obj_size obj - (offset + 400) < obj_size obj - offset" using True by simp
      note rec = less [OF this, of "F offset s 0"]
      have "multi_message_write_loop vrps wts obj offset s =
          multi_message_write_loop vrps wts obj (offset + 400) (F offset s 0)"
        using wr unfolding W_def C_def f0
        by (simp add: multi_message_write_loop_step [OF True] split_beta)
      also note rec
      finally show ?thesis
        by (simp only: n foldl_upt_Suc_head shift)
    qed
  qed
  show ?thesis using main [of offset s] unfolding F_def C_def W_def .
qed

lemma sum_chunk_sizes:
  "sum_list (map (\<lambda>i. min (S - (offset + i * 400)) 400) [0..<(S - offset + 399) div 400]) =
   S - offset"
proof (induction "S - offset" arbitrary: offset rule: less_induct)
  case less
  show ?case
  proof (cases "offset < S")
    case False
    then have "(S - offset + 399) div 400 = 0" by simp
    then show ?thesis using False by simp
  next
    case True
    have n: "(S - offset + 399) div 400 = Suc ((S - (offset + 400) + 399) div 400)"
      using True ceil_div_step [of 400 "S - offset"] by simp
    have "S - (offset + 400) < S - offset" using True by simp
    note rec = less [OF this]
    have "sum_list (map (\<lambda>i. min (S - (offset + i * 400)) 400)
            [0..<(S - offset + 399) div 400]) =
       min (S - offset) 400 +
       sum_list (map (\<lambda>i. min (S - (offset + 400 + i * 400)) 400)
          [0..<(S - (offset + 400) + 399) div 400])"
      by (simp only: n map_upt_Suc_head) (simp add: ac_simps)
    also have "\<dots> = min (S - offset) 400 + (S - (offset + 400))" by (simp only: rec)
    also have "\<dots> = S - offset" by simp
    finally show ?thesis .
  qed
qed

text \<open>
  Claim C4 says that every chunk but the last carries exactly 400 bytes of the serialised
  value. The slice \<open>data[offset:offset + write_size]\<close> is cut from the serialised data,
  which may be shorter than the declared size: for a string variable of declared size
  401 holding the five bytes of HELLO, a controller that records what it receives gets
  two messages, the first with declared size 400 (90 01) and the length prefix 05 00
  before five bytes, the second with declared size 1 and the length prefix 00 00 before
  none.
\<close>

theorem multi_message_variable_write_hello:
  "multi_message_variable_write (\<lambda>obj v. Inr (obj \<lparr> obj_data := v \<rparr>)) tag_request_path
     (\<lambda>s p c d.
        Inr (\<lparr> reply_service = [0xCD], reserved = [0x00], general_status = [0x00],
               extended_status_size = [0x00], extended_status = [], reply_data = [] \<rparr>,
             s @ [(p, c, d)]))
     \<lparr> obj_class = CIPString, obj_size = 401, obj_data = [],
       obj_variable_name = [0x41], obj_array_data_type = [], obj_instance_id = 1 \<rparr>
     [0x48, 0x45, 0x4C, 0x4C, 0x4F] [] =
   Inr [([0x91, 0x01, 0x41, 0x00, 0x80, 0x03, 0x00, 0x00, 0x00, 0x00, 0x90, 0x01],
         [0xd0], [0x05, 0x00, 0x48, 0x45, 0x4C, 0x4C, 0x4F]),
        ([0x91, 0x01, 0x41, 0x00, 0x80, 0x03, 0x90, 0x01, 0x00, 0x00, 0x01, 0x00],
         [0xd0], [0x00, 0x00])]"
  by (simp add: multi_message_variable_write_def multi_message_write_loop_step
      multi_message_write_loop_done simple_data_segment_write_def simple_data_segment_path_def
      SimpleDataSegmentRequest_bytes_ok struct_pack_H_def tag_request_path_def to_bytes_def
      utf8_char_def slice_def le_bytes_2 le_bytes_4)

text \<open>
  Claim C4, as the code has it. For a string or an array of declared size S > 0 the write
  loop makes ceil(S / 400) write round trips with the controller, handing its state from
  each to the next. Round trip number i sends the path of the variable followed by the
  simple data segment for offset 400 * i and declared size min(S - offset, 400), with the
  bytes \<open>data[offset:offset + size]\<close> (after their two-byte length for a string): the
  offset advances by 400 whatever the size of the chunk. Every chunk but the last
  declares 400 bytes, and carries exactly 400 bytes when the serialised data is at least
  S bytes long; the declared sizes add up to S. The path builder and the transport are
  assumed to return rather than raise.
\<close>

theorem multi_message_variable_write_chunks:
  assumes "from_value obj v = Inr obj'"
    and "obj_class obj' = CIPString \<or> obj_class obj' = CIPArray"
    and "0 < obj_size obj'" and "obj_size obj' < 4294967296"
    and "vrps (obj_variable_name obj') = Inr rp"
    and "\<forall>s p c d. wts s p c d = Inr (controller s p c d)"
  shows "multi_message_variable_write from_value vrps wts obj v s0 =
     Inr (foldl
            (\<lambda>s i.
               snd (controller s
                      (rp @ [0x80, 0x03] @ le_bytes 4 (i * 400) @
                       le_bytes 2 (min (obj_size obj' - i * 400) 400))
                      (if obj_class obj' = CIPString then [0xd0] else obj_array_data_type obj')
                      ((if obj_class obj' = CIPString
                        then le_bytes 2
                               (length (slice (i * 400)
                                  (i * 400 + min (obj_size obj' - i * 400) 400)
                                  (obj_data obj')))
                        else []) @
                       slice (i * 400) (i * 400 + min (obj_size obj' - i * 400) 400)
                         (obj_data obj'))))
            s0 [0..<(obj_size obj' + 399) div 400]) \<and>
     (\<forall>i. Suc i < (obj_size obj' + 399) div 400 \<longrightarrow>
          min (obj_size obj' - i * 400) 400 = 400 \<and>
          (obj_size obj' \<le> length (obj_data obj') \<longrightarrow>
             length (slice (i * 400) (i * 400 + min (obj_size obj' - i * 400) 400)
                       (obj_data obj')) = 400)) \<and>
     sum_list (map (\<lambda>i. min (obj_size obj' - i * 400) 400)
                 [0..<(obj_size obj' + 399) div 400]) = obj_size obj'"
proof -
  define S where "S = obj_size obj'"
  define n where "n = (S + 399) div 400"
  have run: "multi_message_variable_write from_value vrps wts obj v s0 =
     Inr (foldl
            (\<lambda>s i.
               snd (controller s
                      (rp @ [0x80, 0x03] @ le_bytes 4 (i * 400) @
                       le_bytes 2 (min (obj_size obj' - i * 400) 400))
                      (if obj_class obj' = CIPString then [0xd0] else obj_array_data_type obj')
                      ((if obj_class obj' = CIPString
                        then le_bytes 2
                               (length (slice (i * 400)
                                  (i * 400 + min (obj_size obj' - i * 400) 400)
                                  (obj_data obj')))
                        else []) @
                       slice (i * 400) (i * 400 + min (obj_size obj' - i * 400) 400)
                         (obj_data obj'))))
            s0 [0..<(obj_size obj' + 399) div 400])"
    using multi_message_write_loop_fold [of vrps obj' rp wts controller 0 s0] assms
    by (simp add: multi_message_variable_write_def)
  have b: "400 * (n - 1) < S"
    using ceil_div_bounds [of 400 S] assms(3) by (simp add: n_def S_def)
  have mid: "min (S - i * 400) 400 = 400 \<and>
          (S \<le> length (obj_data obj') \<longrightarrow>
             length (slice (i * 400) (i * 400 + min (S - i * 400) 400) (obj_data obj')) = 400)"
    if i: "Suc i < n" for i
  proof -
    have "Suc i \<le> n - 1" using i by simp
    then have "400 * Suc i \<le> 400 * (n - 1)" by simp
    with b have lt: "i * 400 + 400 < S" by simp
    then have m: "min (S - i * 400) 400 = 400" by simp
    show ?thesis using lt by (simp add: m slice_def)
  qed
  have total: "sum_list (map (\<lambda>i. min (S - i * 400) 400) [0..<n]) = S"
    using sum_chunk_sizes [of S 0] by (simp add: n_def)
  from run mid total show ?thesis
    unfolding n_def S_def by blast
qed

theorem multi_message_variable_write_chunks_witness:
  "multi_message_variable_write (\<lambda>obj v. Inr (obj \<lparr> obj_data := v \<rparr>)) tag_request_path
     (\<lambda>s p c d.
        Inr (\<lparr> reply_service = [0xCD], reserved = [0x00], general_status = [0x00],
               extended_status_size = [0x00], extended_status = [], reply_data = [] \<rparr>,
             s @ [(p, c, d)]))
     \<lparr> obj_class = CIPArray, obj_size = 801, obj_data = [],
       obj_variable_name = [0x41], obj_array_data_type = [0xc2], obj_instance_id = 1 \<rparr>
     (replicate 801 0x07) [] =
   Inr [([0x91, 0x01, 0x41, 0x00, 0x80, 0x03, 0x00, 0x00, 0x00, 0x00, 0x90, 0x01],
         [0xc2], replicate 400 0x07),
        ([0x91, 0x01, 0x41, 0x00, 0x80, 0x03, 0x90, 0x01, 0x00, 0x00, 0x90, 0x01],
         [0xc2], replicate 400 0x07),
        ([0x91, 0x01, 0x41, 0x00, 0x80, 0x03, 0x20, 0x03, 0x00, 0x00, 0x01, 0x00],
         [0xc2], [0x07])]"
proof -
  have v: "tag_request_path [0x41] = Inr [0x91, 0x01, 0x41, 0x00]"
    by (simp add: tag_request_path_def to_bytes_def utf8_char_def)
  have n: "[0..<3] = [0, 1, 2::nat]" by (simp add: upt_conv_Cons)
  show ?thesis
    using multi_message_variable_write_chunks
      [of "\<lambda>obj v. Inr (obj \<lparr> obj_data := v \<rparr>)"
          "\<lparr> obj_class = CIPArray, obj_size = 801, obj_data = [],
             obj_variable_name = [0x41], obj_array_data_type = [0xc2], obj_instance_id = 1 \<rparr>"
          "replicate 801 0x07"
          "\<lparr> obj_class = CIPArray, obj_size = 801, obj_data = replicate 801 0x07,
             obj_variable_name = [0x41], obj_array_data_type = [0xc2], obj_instance_id = 1 \<rparr>"
          tag_request_path "[0x91, 0x01, 0x41, 0x00]"
          "\<lambda>s p c d.
             Inr (\<lparr> reply_service = [0xCD], reserved = [0x00], general_status = [0x00],
               extended_status_size = [0x00], extended_status = [], reply_data = [] \<rparr>,
             s @ [(p, c, d)])"
          "\<lambda>s p c d.
             (\<lparr> reply_service = [0xCD], reserved = [0x00], general_status = [0x00],
               extended_status_size = [0x00], extended_status = [], reply_data = [] \<rparr>,
             s @ [(p, c, d)])"
          "[]"]
      v
    by (simp add: n le_bytes_2 le_bytes_4 slice_def)
qed

section \<open>Structure member resolution\<close>














section \<open>Registry miss\<close>

text \<open>
  Claim C8. For a name absent from the registry, \<open>read_variable\<close> and
  \<open>write_variable\<close> should report NameNotFound. With an empty registry both raise
  AttributeError instead, \<open>read_variable\<close> after a read round trip with the controller.
\<close>

theorem registry_miss_raises_AttributeError:
  "read_variable (\<lambda>obj b. Inr (obj \<lparr> obj_data := b \<rparr>)) tag_request_path
     (\<lambda>s p.
        Inr (\<lparr> reply_service = [0xCC], reserved = [0x00], general_status = [0x00],
               extended_status_size = [0x00], extended_status = [],
               reply_data = [0xc3, 0x00, 0x2a, 0x00] \<rparr>, s @ [p]))
     Map.empty [0x58] [] = Inl AttributeError \<and>
   write_variable (\<lambda>obj v. Inr (obj \<lparr> obj_data := v \<rparr>)) tag_request_path
     (\<lambda>s p c d.
        Inr (\<lparr> reply_service = [0xCD], reserved = [0x00], general_status = [0x00],
               extended_status_size = [0x00], extended_status = [], reply_data = [] \<rparr>,
             s @ [(p, c, d)]))
     Map.empty [0x58] [0x2a, 0x00] [] = Inl AttributeError"
  by (simp add: read_variable_def write_variable_def tag_request_path_def to_bytes_def
      utf8_char_def)

end
